theory Spec2Isabelle
  imports Main
begin

unbundle bit_operations_syntax

section \<open>Host values and host primitives\<close>

text \<open>
  The virtual machine of \<^verbatim>\<open>vmachine.py\<close> stores host (Python) objects in its
  registers and memory cells: integers, floats, and the closures that the
  \<^verbatim>\<open>instruction\<close> decorator returns. The exceptions it can raise are the built-in
  ones listed below.
\<close>

datatype err = TypeError | ValueError | IndexError | MemoryError
  | ZeroDivisionError | OverflowError

text \<open>
  \<^verbatim>\<open>instruction(func)\<close> turns a method into a constructor: calling
  \<^verbatim>\<open>vm.move(d, s)\<close> runs nothing and returns \<^verbatim>\<open>lambda: func(self, d, s)\<close>.
  A value of type \<open>instr\<close> is such a closure: the method it will run and the
  arguments it captured. \<open>Empty\<close> is the placeholder
  \<^verbatim>\<open>lambda: unavailable(TypeError, 'Empty')\<close> of a fresh code segment.
  Operands are strings; only \<^verbatim>\<open>pop\<close> is ever given \<^verbatim>\<open>None\<close>.
\<close>

datatype instr =
    Empty
  | Move string string
  | Lea string string
  | Push string
  | Pop "string option"
  | Input string
  | Output string
  | Add string string
  | Cmp string string
  | Sub string string
  | Mul string string
  | Div string string
  | Fdiv string string
  | Bit_not string
  | Bit_test string string
  | Bit_and string string
  | Bit_or string string
  | Bit_xor string string
  | Jmp string
  | Je string
  | Jne string
  | Jb string
  | Jnb string
  | Jbe string
  | Ja string
  | Jna string
  | Jae string
  | Ret

abbreviation Jz :: "string \<Rightarrow> instr" where "Jz \<equiv> Je"
abbreviation Jnz :: "string \<Rightarrow> instr" where "Jnz \<equiv> Jne"

text \<open>
  Floats are kept abstract: \<open>'f\<close> is the host's float type and a record of
  type \<open>'f host\<close> supplies the host operations the machine applies to
  them. \<open>None\<close> stands for the exception the host raises (\<^verbatim>\<open>ValueError\<close> for
  \<^verbatim>\<open>float(str)\<close>, \<^verbatim>\<open>OverflowError\<close> for the conversion and the true division of
  integers). The record also holds the host's setting
  \<^verbatim>\<open>sys.get_int_max_str_digits()\<close>, the largest number of digits \<^verbatim>\<open>int(str)\<close>
  accepts: 4300 by default, and 0 where there is no limit (as in interpreters
  before 3.11). Every theorem below holds for every such record.
\<close>

record 'f host =
  int_max_str_digits :: nat
  float_of_str :: "string \<Rightarrow> 'f option"
  float_of_int :: "int \<Rightarrow> 'f option"
  fadd :: "'f \<Rightarrow> 'f \<Rightarrow> 'f"
  fsub :: "'f \<Rightarrow> 'f \<Rightarrow> 'f"
  fmul :: "'f \<Rightarrow> 'f \<Rightarrow> 'f"
  ffloordiv :: "'f \<Rightarrow> 'f \<Rightarrow> 'f"
  ftruediv :: "'f \<Rightarrow> 'f \<Rightarrow> 'f"
  int_truediv :: "int \<Rightarrow> int \<Rightarrow> 'f option"
  feq_int :: "'f \<Rightarrow> int \<Rightarrow> bool"
  fless_zero :: "'f \<Rightarrow> bool"

datatype 'f val = VInt int | VFloat 'f | VFunc instr

text \<open>A host without floats, with the default limit on digits: every
  conversion to float fails. It instantiates the host in the closed examples,
  whose operands are all integers.\<close>

definition no_floats :: "unit host" where
  "no_floats = \<lparr> int_max_str_digits = 4300, float_of_str = (\<lambda>_. None), float_of_int = (\<lambda>_. None),
     fadd = (\<lambda>_ _. ()), fsub = (\<lambda>_ _. ()), fmul = (\<lambda>_ _. ()),
     ffloordiv = (\<lambda>_ _. ()), ftruediv = (\<lambda>_ _. ()),
     int_truediv = (\<lambda>_ _. None), feq_int = (\<lambda>_ _. False),
     fless_zero = (\<lambda>_. False) \<rparr>"

subsection \<open>Strings\<close>

definition startswith :: "string \<Rightarrow> string \<Rightarrow> bool" where
  "startswith s p = (take (length p) s = p)"

definition endswith :: "string \<Rightarrow> string \<Rightarrow> bool" where
  "endswith s p = (length p \<le> length s \<and> drop (length s - length p) s = p)"

text \<open>\<^verbatim>\<open>s.split(c)[1]\<close> for a string that contains \<open>c\<close>: the text between the
  first occurrence of \<open>c\<close> and the next one (or the end).\<close>

definition split_second :: "char \<Rightarrow> string \<Rightarrow> string" where
  "split_second c s = takeWhile (\<lambda>x. x \<noteq> c) (tl (dropWhile (\<lambda>x. x \<noteq> c) s))"

text \<open>
  \<^verbatim>\<open>int(str)\<close> in base 10, on strings of code points below 256. The
  whitespace it strips at both ends is tab, line feed, vertical tab, form feed,
  carriage return, space, and the code points 133 and 160 (the separators 28
  to 31 are not stripped). One sign is allowed, and the digits may be grouped
  by single underscores. With a limit set, a string with more digit characters
  than the limit is a \<^verbatim>\<open>ValueError\<close>; signs, underscores and whitespace do not
  count, leading zeros do.
\<close>

definition is_space :: "char \<Rightarrow> bool" where
  "is_space c = (of_char c \<in> set [9, 10, 11, 12, 13, 32, 133, 160 :: nat])"

definition strip :: "string \<Rightarrow> string" where
  "strip s = rev (dropWhile is_space (rev (dropWhile is_space s)))"

definition is_digit :: "char \<Rightarrow> bool" where
  "is_digit c = (48 \<le> (of_char c :: nat) \<and> (of_char c :: nat) \<le> 57)"

fun parse_digits :: "string \<Rightarrow> bool \<Rightarrow> int \<Rightarrow> int option" where
  "parse_digits [] after_digit acc = (if after_digit then Some acc else None)"
| "parse_digits (c # cs) after_digit acc =
     (if is_digit c then parse_digits cs True (10 * acc + (of_char c - 48))
      else if c = CHR ''_'' \<and> after_digit then parse_digits cs False acc
      else None)"

definition too_many_digits :: "'f host \<Rightarrow> string \<Rightarrow> bool" where
  "too_many_digits F s =
     (0 < int_max_str_digits F \<and> int_max_str_digits F < length (filter is_digit s))"

definition py_int :: "'f host \<Rightarrow> string \<Rightarrow> int option" where
  "py_int F s =
     (if too_many_digits F (strip s) then None
      else case strip s of
        [] \<Rightarrow> None
      | c # cs \<Rightarrow>
          if c = CHR ''-'' then map_option uminus (parse_digits cs False 0)
          else if c = CHR ''+'' then parse_digits cs False 0
          else parse_digits (c # cs) False 0)"

subsection \<open>Arithmetic on host values\<close>

text \<open>The binary operators \<^verbatim>\<open>+\<close>, \<^verbatim>\<open>-\<close>, \<^verbatim>\<open>*\<close>: integers stay integers, a float
  operand converts the other one to float, and a closure is a \<^verbatim>\<open>TypeError\<close>.\<close>

fun num_op :: "'f host \<Rightarrow> (int \<Rightarrow> int \<Rightarrow> int) \<Rightarrow> ('f \<Rightarrow> 'f \<Rightarrow> 'f)
    \<Rightarrow> 'f val \<Rightarrow> 'f val \<Rightarrow> err + 'f val" where
  "num_op F iop fop (VInt i) (VInt j) = Inr (VInt (iop i j))"
| "num_op F iop fop (VInt i) (VFloat g) =
     (case float_of_int F i of None \<Rightarrow> Inl OverflowError
      | Some f \<Rightarrow> Inr (VFloat (fop f g)))"
| "num_op F iop fop (VFloat f) (VInt j) =
     (case float_of_int F j of None \<Rightarrow> Inl OverflowError
      | Some g \<Rightarrow> Inr (VFloat (fop f g)))"
| "num_op F iop fop (VFloat f) (VFloat g) = Inr (VFloat (fop f g))"
| "num_op F iop fop _ _ = Inl TypeError"

definition py_add :: "'f host \<Rightarrow> 'f val \<Rightarrow> 'f val \<Rightarrow> err + 'f val" where
  "py_add F = num_op F (+) (fadd F)"

definition py_sub :: "'f host \<Rightarrow> 'f val \<Rightarrow> 'f val \<Rightarrow> err + 'f val" where
  "py_sub F = num_op F (-) (fsub F)"

definition py_mul :: "'f host \<Rightarrow> 'f val \<Rightarrow> 'f val \<Rightarrow> err + 'f val" where
  "py_mul F = num_op F (*) (fmul F)"

text \<open>\<^verbatim>\<open>//\<close> (floor division; on integers it is HOL's \<open>div\<close>) and \<^verbatim>\<open>/\<close>
  (true division, always a float).\<close>

definition float_div :: "'f host \<Rightarrow> ('f \<Rightarrow> 'f \<Rightarrow> 'f) \<Rightarrow> 'f \<Rightarrow> 'f \<Rightarrow> err + 'f val" where
  "float_div F fop f g =
     (if feq_int F g 0 then Inl ZeroDivisionError else Inr (VFloat (fop f g)))"

fun py_floordiv :: "'f host \<Rightarrow> 'f val \<Rightarrow> 'f val \<Rightarrow> err + 'f val" where
  "py_floordiv F (VInt i) (VInt j) =
     (if j = 0 then Inl ZeroDivisionError else Inr (VInt (i div j)))"
| "py_floordiv F (VInt i) (VFloat g) =
     (case float_of_int F i of None \<Rightarrow> Inl OverflowError
      | Some f \<Rightarrow> float_div F (ffloordiv F) f g)"
| "py_floordiv F (VFloat f) (VInt j) =
     (case float_of_int F j of None \<Rightarrow> Inl OverflowError
      | Some g \<Rightarrow> float_div F (ffloordiv F) f g)"
| "py_floordiv F (VFloat f) (VFloat g) = float_div F (ffloordiv F) f g"
| "py_floordiv F _ _ = Inl TypeError"

fun py_truediv :: "'f host \<Rightarrow> 'f val \<Rightarrow> 'f val \<Rightarrow> err + 'f val" where
  "py_truediv F (VInt i) (VInt j) =
     (if j = 0 then Inl ZeroDivisionError
      else case int_truediv F i j of None \<Rightarrow> Inl OverflowError
           | Some q \<Rightarrow> Inr (VFloat q))"
| "py_truediv F (VInt i) (VFloat g) =
     (case float_of_int F i of None \<Rightarrow> Inl OverflowError
      | Some f \<Rightarrow> float_div F (ftruediv F) f g)"
| "py_truediv F (VFloat f) (VInt j) =
     (case float_of_int F j of None \<Rightarrow> Inl OverflowError
      | Some g \<Rightarrow> float_div F (ftruediv F) f g)"
| "py_truediv F (VFloat f) (VFloat g) = float_div F (ftruediv F) f g"
| "py_truediv F _ _ = Inl TypeError"

text \<open>The bitwise operators \<^verbatim>\<open>~\<close>, \<^verbatim>\<open>&\<close>, \<^verbatim>\<open>|\<close>, \<^verbatim>\<open>^\<close> exist on integers only
  (unbounded two's complement, as on HOL's \<open>int\<close>).\<close>

fun py_invert :: "'f val \<Rightarrow> err + 'f val" where
  "py_invert (VInt i) = Inr (VInt (NOT i))"
| "py_invert _ = Inl TypeError"

fun bit_op :: "(int \<Rightarrow> int \<Rightarrow> int) \<Rightarrow> 'f val \<Rightarrow> 'f val \<Rightarrow> err + 'f val" where
  "bit_op iop (VInt i) (VInt j) = Inr (VInt (iop i j))"
| "bit_op iop _ _ = Inl TypeError"

text \<open>\<^verbatim>\<open>value == 0\<close> never raises; \<^verbatim>\<open>value < 0\<close> raises on a closure.\<close>

fun py_eq_zero :: "'f host \<Rightarrow> 'f val \<Rightarrow> bool" where
  "py_eq_zero F (VInt i) = (i = 0)"
| "py_eq_zero F (VFloat f) = feq_int F f 0"
| "py_eq_zero F (VFunc c) = False"

fun py_lt_zero :: "'f host \<Rightarrow> 'f val \<Rightarrow> err + bool" where
  "py_lt_zero F (VInt i) = Inr (i < 0)"
| "py_lt_zero F (VFloat f) = Inr (fless_zero F f)"
| "py_lt_zero F (VFunc c) = Inl TypeError"

text \<open>\<^verbatim>\<open>a == b\<close> for a register value and an integer.\<close>

fun py_eq_int :: "'f host \<Rightarrow> 'f val \<Rightarrow> int \<Rightarrow> bool" where
  "py_eq_int F (VInt i) k = (i = k)"
| "py_eq_int F (VFloat f) k = feq_int F f k"
| "py_eq_int F (VFunc c) k = False"

subsection \<open>List indexing\<close>

text \<open>\<^verbatim>\<open>xs[i]\<close>: the index must be an integer; a negative one counts from the
  end; outside \<open>[-len, len)\<close> the host raises \<^verbatim>\<open>IndexError\<close>. A list never grows
  by assignment to an index.\<close>

definition py_index :: "'f val list \<Rightarrow> 'f val \<Rightarrow> err + nat" where
  "py_index xs a =
     (case a of
        VInt i \<Rightarrow>
          (let n = int (length xs); j = (if i < 0 then n + i else i)
           in if 0 \<le> j \<and> j < n then Inr (nat j) else Inl IndexError)
      | _ \<Rightarrow> Inl TypeError)"

definition getitem :: "'f val list \<Rightarrow> 'f val \<Rightarrow> err + 'f val" where
  "getitem xs a = (case py_index xs a of Inl e \<Rightarrow> Inl e | Inr k \<Rightarrow> Inr (xs ! k))"

definition setitem :: "'f val list \<Rightarrow> 'f val \<Rightarrow> 'f val \<Rightarrow> err + 'f val list" where
  "setitem xs a v = (case py_index xs a of Inl e \<Rightarrow> Inl e | Inr k \<Rightarrow> Inr (xs[k := v]))"

section \<open>The machine state\<close>

text \<open>The output stream is whatever the caller injects. Two kinds are
  distinguished: a binary sink such as the default \<^verbatim>\<open>BytesIO()\<close>, whose
  \<^verbatim>\<open>write\<close> refuses a \<^verbatim>\<open>str\<close>, and a text sink such as \<^verbatim>\<open>sys.stdout\<close> in
  \<^verbatim>\<open>main.py\<close>, which receives the code points written. The input stream is the
  list of bytes not yet read.\<close>

datatype ostream = BinarySink | TextSink "int list"

record 'f vm =
  memory :: "'f val list"
  CS :: int
  DS :: int
  SS :: int
  SP :: "'f val"
  BP :: "'f val"
  IP :: "'f val"
  AX :: "'f val"
  BX :: "'f val"
  CX :: "'f val"
  DX :: "'f val"
  ZERO :: int
  NEG :: int
  input_stream :: "nat list"
  output_stream :: ostream

text \<open>The outcome of running a method: it raised (and left the machine in the
  state given), or it returned a value (\<open>None\<close> for the host's \<^verbatim>\<open>None\<close>).\<close>

datatype 'f outcome = Raised err "'f vm" | Returned "'f val option" "'f vm"

text \<open>\<^verbatim>\<open>VirtualMachine.__init__\<close>. \<^verbatim>\<open>[x] * memory_size\<close> is empty for a negative
  size.\<close>

definition VirtualMachine :: "int \<Rightarrow> nat list option \<Rightarrow> ostream option \<Rightarrow> 'f vm" where
  "VirtualMachine memory_size input_stream0 output_stream0 =
     (let code = replicate (nat memory_size) (VFunc Empty);
          data = code @ replicate (nat memory_size) (VInt 0);
          stack = data @ replicate (nat memory_size) (VInt 0)
      in \<lparr> memory = stack,
           CS = 0,
           DS = int (length code),
           SS = int (length data),
           SP = VInt (int (length stack)),
           BP = VInt (int (length stack) - 1),
           IP = VInt 0,
           AX = VInt 0, BX = VInt 0, CX = VInt 0, DX = VInt 0,
           ZERO = 0, NEG = 0,
           input_stream = (case input_stream0 of None \<Rightarrow> [] | Some bs \<Rightarrow> bs),
           output_stream = (case output_stream0 of None \<Rightarrow> BinarySink | Some out \<Rightarrow> out) \<rparr>)"

subsection \<open>Operands\<close>

definition registers :: "string list" where
  "registers = [''AX'', ''BX'', ''CX'', ''DX'', ''SP'', ''BP'']"

text \<open>\<^verbatim>\<open>getattr(self, r)\<close> and \<^verbatim>\<open>setattr(self, r, value)\<close>, for \<open>r\<close> one of the six
  register names (the only names they are called with).\<close>

definition getattr :: "'f vm \<Rightarrow> string \<Rightarrow> 'f val" where
  "getattr s r =
     (if r = ''AX'' then AX s else if r = ''BX'' then BX s
      else if r = ''CX'' then CX s else if r = ''DX'' then DX s
      else if r = ''SP'' then SP s else BP s)"

definition setattr :: "'f vm \<Rightarrow> string \<Rightarrow> 'f val \<Rightarrow> 'f vm" where
  "setattr s r v =
     (if r = ''AX'' then s\<lparr>AX := v\<rparr> else if r = ''BX'' then s\<lparr>BX := v\<rparr>
      else if r = ''CX'' then s\<lparr>CX := v\<rparr> else if r = ''DX'' then s\<lparr>DX := v\<rparr>
      else if r = ''SP'' then s\<lparr>SP := v\<rparr> else s\<lparr>BP := v\<rparr>)"

text \<open>The offset of a bracketed operand that starts with a register name.\<close>

definition offset_of :: "'f host \<Rightarrow> string \<Rightarrow> int option" where
  "offset_of F address =
     (if CHR ''+'' \<in> set address then py_int F (split_second CHR ''+'' address)
      else if CHR ''-'' \<in> set address
        then map_option uminus (py_int F (split_second CHR ''-'' address))
      else Some 0)"

text \<open>The \<^verbatim>\<open>for register in [...]: ... else: ...\<close> block that \<^verbatim>\<open>read_address\<close> and
  \<^verbatim>\<open>write_address\<close> both contain: the effective address of the text between
  the brackets.\<close>

definition effective_address :: "'f host \<Rightarrow> 'f vm \<Rightarrow> string \<Rightarrow> err + 'f val" where
  "effective_address F s address =
     (case find (startswith address) registers of
        Some register \<Rightarrow>
          (case offset_of F address of
             None \<Rightarrow> Inl ValueError
           | Some offset \<Rightarrow> py_add F (getattr s register) (VInt offset))
      | None \<Rightarrow>
          (case py_int F address of None \<Rightarrow> Inl ValueError | Some a \<Rightarrow> Inr (VInt a)))"

definition is_memory_operand :: "string \<Rightarrow> bool" where
  "is_memory_operand target = (startswith target ''['' \<and> endswith target '']'')"

definition read_address :: "'f host \<Rightarrow> 'f vm \<Rightarrow> string \<Rightarrow> bool \<Rightarrow> err + 'f val" where
  "read_address F s target address_only =
     (if target \<in> set registers then
        (if address_only then Inl TypeError else Inr (getattr s target))
      else if is_memory_operand target then
        (case effective_address F s (butlast (tl target)) of
           Inl e \<Rightarrow> Inl e
         | Inr address \<Rightarrow>
             if address_only then Inr address else getitem (memory s) address)
      else
        (if address_only then Inl TypeError
         else if CHR ''.'' \<in> set target then
           (case float_of_str F target of None \<Rightarrow> Inl ValueError | Some f \<Rightarrow> Inr (VFloat f))
         else
           (case py_int F target of None \<Rightarrow> Inl ValueError | Some i \<Rightarrow> Inr (VInt i))))"

definition write_address :: "'f host \<Rightarrow> 'f vm \<Rightarrow> string \<Rightarrow> 'f val \<Rightarrow> err + 'f vm" where
  "write_address F s target v =
     (if target \<in> set registers then Inr (setattr s target v)
      else if is_memory_operand target then
        (case effective_address F s (butlast (tl target)) of
           Inl e \<Rightarrow> Inl e
         | Inr address \<Rightarrow>
             (case setitem (memory s) address v of
                Inl e \<Rightarrow> Inl e
              | Inr m \<Rightarrow> Inr (s\<lparr>memory := m\<rparr>)))
      else Inl TypeError)"

text \<open>A method's last statement \<^verbatim>\<open>self.write_address(x, v)\<close>, followed by
  \<^verbatim>\<open>return r\<close>.\<close>

definition store :: "'f host \<Rightarrow> 'f vm \<Rightarrow> string \<Rightarrow> 'f val \<Rightarrow> 'f val option \<Rightarrow> 'f outcome" where
  "store F s target v r =
     (case write_address F s target v of
        Inl e \<Rightarrow> Raised e s
      | Inr s' \<Rightarrow> Returned r s')"

section \<open>The methods behind the instructions\<close>

text \<open>Each definition below is the body of one decorated method, run on the
  captured arguments when the closure is called. \<open>attempt\<close> continues with the
  result of a host operation, or stops with its exception in the state reached
  so far; \<open>and_then\<close> continues after a call that changed the state.\<close>

definition attempt :: "'f vm \<Rightarrow> err + 'a \<Rightarrow> ('a \<Rightarrow> 'f outcome) \<Rightarrow> 'f outcome" where
  "attempt s r k = (case r of Inl e \<Rightarrow> Raised e s | Inr v \<Rightarrow> k v)"

definition and_then :: "'f outcome \<Rightarrow> ('f vm \<Rightarrow> 'f outcome) \<Rightarrow> 'f outcome" where
  "and_then r k = (case r of Raised e s \<Rightarrow> Raised e s | Returned v s \<Rightarrow> k s)"

definition truthy :: "int \<Rightarrow> bool" where
  "truthy n = (n \<noteq> 0)"

subsection \<open>Memory and stack\<close>

definition add_instruction :: "'f host \<Rightarrow> 'f vm \<Rightarrow> 'f val \<Rightarrow> 'f outcome" where
  "add_instruction F s inst =
     attempt s (setitem (memory s) (IP s) inst) (\<lambda>m.
     let s1 = s\<lparr>memory := m\<rparr> in
     attempt s1 (py_add F (IP s1) (VInt 1)) (\<lambda>ip.
     Returned None (s1\<lparr>IP := ip\<rparr>)))"

definition move :: "'f host \<Rightarrow> 'f vm \<Rightarrow> string \<Rightarrow> string \<Rightarrow> 'f outcome" where
  "move F s destination source =
     attempt s (read_address F s source False) (\<lambda>source.
     store F s destination source None)"

definition lea :: "'f host \<Rightarrow> 'f vm \<Rightarrow> string \<Rightarrow> string \<Rightarrow> 'f outcome" where
  "lea F s destination variable =
     attempt s (read_address F s variable True) (\<lambda>variable.
     store F s destination variable None)"

definition push :: "'f host \<Rightarrow> 'f vm \<Rightarrow> string \<Rightarrow> 'f outcome" where
  "push F s target =
     attempt s (py_sub F (SP s) (VInt 1)) (\<lambda>sp.
     let s1 = s\<lparr>SP := sp\<rparr> in
     if py_eq_int F (SP s1) (SS s1) then Raised MemoryError s1
     else
       attempt s1 (read_address F s1 target False) (\<lambda>target.
       attempt s1 (setitem (memory s1) (SP s1) target) (\<lambda>m.
       Returned None (s1\<lparr>memory := m\<rparr>))))"

definition pop :: "'f host \<Rightarrow> 'f vm \<Rightarrow> string option \<Rightarrow> 'f outcome" where
  "pop F s writable =
     attempt s (getitem (memory s) (SP s)) (\<lambda>v.
     attempt s (py_add F (SP s) (VInt 1)) (\<lambda>sp.
     let s1 = s\<lparr>SP := sp\<rparr> in
     case writable of
       None \<Rightarrow> Returned (Some v) s1
     | Some w \<Rightarrow> store F s1 w v (Some v)))"

subsection \<open>Input and output\<close>

text \<open>\<^verbatim>\<open>read(1)\<close> at the end of the stream returns an empty bytes object, on
  which \<^verbatim>\<open>ord\<close> raises \<^verbatim>\<open>TypeError\<close>.\<close>

definition input_instr :: "'f host \<Rightarrow> 'f vm \<Rightarrow> string \<Rightarrow> 'f outcome" where
  "input_instr F s writable =
     (case input_stream s of
        [] \<Rightarrow> Raised TypeError s
      | b # rest \<Rightarrow>
          (let s1 = s\<lparr>input_stream := rest\<rparr>
           in store F s1 writable (VInt (int b)) None))"

text \<open>\<^verbatim>\<open>chr(value)\<close> needs an integer that fits a C \<^verbatim>\<open>int\<close> and is a code point.\<close>

fun py_chr :: "'f val \<Rightarrow> err + int" where
  "py_chr (VInt i) =
     (if i < - (2 ^ 31) \<or> 2 ^ 31 \<le> i then Inl OverflowError
      else if i < 0 \<or> 1114112 \<le> i then Inl ValueError
      else Inr i)"
| "py_chr _ = Inl TypeError"

definition stream_write :: "ostream \<Rightarrow> int \<Rightarrow> err + ostream" where
  "stream_write out c =
     (case out of BinarySink \<Rightarrow> Inl TypeError | TextSink cs \<Rightarrow> Inr (TextSink (cs @ [c])))"

definition output_instr :: "'f host \<Rightarrow> 'f vm \<Rightarrow> string \<Rightarrow> 'f outcome" where
  "output_instr F s readable =
     attempt s (read_address F s readable False) (\<lambda>v.
     attempt s (py_chr v) (\<lambda>c.
     attempt s (stream_write (output_stream s) c) (\<lambda>out.
     Returned None (s\<lparr>output_stream := out\<rparr>))))"

subsection \<open>Arithmetic\<close>

text \<open>\<^verbatim>\<open>set_flags\<close> only ever assigns 1. The comparison \<^verbatim>\<open>value < 0\<close> comes after
  the assignment to \<^verbatim>\<open>ZERO\<close>.\<close>

definition set_flags :: "'f host \<Rightarrow> 'f vm \<Rightarrow> 'f val \<Rightarrow> 'f outcome" where
  "set_flags F s v =
     (let s1 = (if py_eq_zero F v then s\<lparr>ZERO := 1\<rparr> else s) in
      attempt s1 (py_lt_zero F v) (\<lambda>negative.
      Returned None (if negative then s1\<lparr>NEG := 1\<rparr> else s1)))"

definition add :: "'f host \<Rightarrow> 'f vm \<Rightarrow> string \<Rightarrow> string \<Rightarrow> 'f outcome" where
  "add F s x y =
     attempt s (read_address F s x False) (\<lambda>value1.
     attempt s (read_address F s y False) (\<lambda>value2.
     attempt s (py_add F value1 value2) (\<lambda>total.
     and_then (set_flags F s total) (\<lambda>s1.
     store F s1 x total (Some total)))))"

definition cmp :: "'f host \<Rightarrow> 'f vm \<Rightarrow> string \<Rightarrow> string \<Rightarrow> 'f outcome" where
  "cmp F s x y =
     attempt s (read_address F s x False) (\<lambda>value1.
     attempt s (read_address F s y False) (\<lambda>value2.
     attempt s (py_sub F value1 value2) (\<lambda>diff.
     and_then (set_flags F s diff) (\<lambda>s1.
     Returned (Some diff) s1))))"

text \<open>In \<^verbatim>\<open>sub\<close>, \<^verbatim>\<open>self.cmp(x, y)\<close> goes through the decorator: it builds the
  closure of a comparison and does not run it. That closure is what is written
  to \<open>x\<close> and returned.\<close>

definition sub :: "'f host \<Rightarrow> 'f vm \<Rightarrow> string \<Rightarrow> string \<Rightarrow> 'f outcome" where
  "sub F s x y =
     (let diff = VFunc (Cmp x y)
      in store F s x diff (Some diff))"

definition mul :: "'f host \<Rightarrow> 'f vm \<Rightarrow> string \<Rightarrow> string \<Rightarrow> 'f outcome" where
  "mul F s x y =
     attempt s (read_address F s x False) (\<lambda>value1.
     attempt s (read_address F s y False) (\<lambda>value2.
     attempt s (py_mul F value1 value2) (\<lambda>prod.
     and_then (set_flags F s prod) (\<lambda>s1.
     store F s1 x prod None))))"

definition div_instr :: "'f host \<Rightarrow> 'f vm \<Rightarrow> string \<Rightarrow> string \<Rightarrow> 'f outcome" where
  "div_instr F s x y =
     attempt s (read_address F s x False) (\<lambda>value1.
     attempt s (read_address F s y False) (\<lambda>value2.
     attempt s (py_floordiv F value1 value2) (\<lambda>quot.
     and_then (set_flags F s quot) (\<lambda>s1.
     store F s1 x quot None))))"

definition fdiv :: "'f host \<Rightarrow> 'f vm \<Rightarrow> string \<Rightarrow> string \<Rightarrow> 'f outcome" where
  "fdiv F s x y =
     attempt s (read_address F s x False) (\<lambda>value1.
     attempt s (read_address F s y False) (\<lambda>value2.
     attempt s (py_truediv F value1 value2) (\<lambda>quot.
     and_then (set_flags F s quot) (\<lambda>s1.
     store F s1 x quot None))))"

subsection \<open>Bitwise operations\<close>

definition bit_not :: "'f host \<Rightarrow> 'f vm \<Rightarrow> string \<Rightarrow> 'f outcome" where
  "bit_not F s x =
     attempt s (read_address F s x False) (\<lambda>v.
     attempt s (py_invert v) (\<lambda>result.
     and_then (set_flags F s result) (\<lambda>s1.
     store F s1 x result None)))"

definition bit_test :: "'f host \<Rightarrow> 'f vm \<Rightarrow> string \<Rightarrow> string \<Rightarrow> 'f outcome" where
  "bit_test F s x y =
     attempt s (read_address F s x False) (\<lambda>value1.
     attempt s (read_address F s y False) (\<lambda>value2.
     attempt s (bit_op (AND) value1 value2) (\<lambda>result.
     and_then (set_flags F s result) (\<lambda>s1.
     Returned (Some result) s1))))"

text \<open>As in \<^verbatim>\<open>sub\<close>: \<^verbatim>\<open>self.bit_test(x, y)\<close> only builds a closure.\<close>

definition bit_and :: "'f host \<Rightarrow> 'f vm \<Rightarrow> string \<Rightarrow> string \<Rightarrow> 'f outcome" where
  "bit_and F s x y =
     (let result = VFunc (Bit_test x y)
      in store F s x result None)"

definition bit_or :: "'f host \<Rightarrow> 'f vm \<Rightarrow> string \<Rightarrow> string \<Rightarrow> 'f outcome" where
  "bit_or F s x y =
     attempt s (read_address F s x False) (\<lambda>value1.
     attempt s (read_address F s y False) (\<lambda>value2.
     attempt s (bit_op (OR) value1 value2) (\<lambda>result.
     and_then (set_flags F s result) (\<lambda>s1.
     store F s1 x result None))))"

definition bit_xor :: "'f host \<Rightarrow> 'f vm \<Rightarrow> string \<Rightarrow> string \<Rightarrow> 'f outcome" where
  "bit_xor F s x y =
     attempt s (read_address F s x False) (\<lambda>value1.
     attempt s (read_address F s y False) (\<lambda>value2.
     attempt s (bit_op (XOR) value1 value2) (\<lambda>result.
     and_then (set_flags F s result) (\<lambda>s1.
     store F s1 x result None))))"

subsection \<open>Jumps\<close>

text \<open>Every jump reads its operand first and then assigns \<^verbatim>\<open>IP\<close> when its
  condition on the flags holds.\<close>

definition jump_if :: "'f host \<Rightarrow> 'f vm \<Rightarrow> string \<Rightarrow> bool \<Rightarrow> 'f outcome" where
  "jump_if F s address cond =
     attempt s (read_address F s address False) (\<lambda>address.
     Returned None (if cond then s\<lparr>IP := address\<rparr> else s))"

definition jmp :: "'f host \<Rightarrow> 'f vm \<Rightarrow> string \<Rightarrow> 'f outcome" where
  "jmp F s address = jump_if F s address True"

definition je :: "'f host \<Rightarrow> 'f vm \<Rightarrow> string \<Rightarrow> 'f outcome" where
  "je F s address = jump_if F s address (truthy (ZERO s))"

definition jne :: "'f host \<Rightarrow> 'f vm \<Rightarrow> string \<Rightarrow> 'f outcome" where
  "jne F s address = jump_if F s address (\<not> truthy (ZERO s))"

definition jb :: "'f host \<Rightarrow> 'f vm \<Rightarrow> string \<Rightarrow> 'f outcome" where
  "jb F s address = jump_if F s address (\<not> truthy (ZERO s) \<and> truthy (NEG s))"

definition jnb :: "'f host \<Rightarrow> 'f vm \<Rightarrow> string \<Rightarrow> 'f outcome" where
  "jnb F s address = jump_if F s address (truthy (ZERO s) \<or> \<not> truthy (NEG s))"

definition jbe :: "'f host \<Rightarrow> 'f vm \<Rightarrow> string \<Rightarrow> 'f outcome" where
  "jbe F s address = jump_if F s address (truthy (ZERO s) \<or> truthy (NEG s))"

definition ja :: "'f host \<Rightarrow> 'f vm \<Rightarrow> string \<Rightarrow> 'f outcome" where
  "ja F s address = jump_if F s address (\<not> truthy (ZERO s) \<and> \<not> truthy (NEG s))"

definition jna :: "'f host \<Rightarrow> 'f vm \<Rightarrow> string \<Rightarrow> 'f outcome" where
  "jna F s address = jump_if F s address (truthy (ZERO s) \<or> truthy (NEG s))"

definition jae :: "'f host \<Rightarrow> 'f vm \<Rightarrow> string \<Rightarrow> 'f outcome" where
  "jae F s address = jump_if F s address (truthy (ZERO s) \<or> \<not> truthy (NEG s))"

text \<open>In \<^verbatim>\<open>ret\<close>, \<^verbatim>\<open>self.pop(None)\<close> and \<^verbatim>\<open>self.jmp(str(address))\<close> both go through
  the decorator: each builds a closure that is never called. Nothing is read
  from the stack and \<^verbatim>\<open>IP\<close> is not assigned; the method returns \<^verbatim>\<open>None\<close>.\<close>

definition ret :: "'f host \<Rightarrow> 'f vm \<Rightarrow> 'f outcome" where
  "ret F s =
     (let address = (VFunc (Pop None) :: 'f val)
      in Returned None s)"

section \<open>Calling a closure, and the execution engine\<close>

fun call :: "'f host \<Rightarrow> 'f vm \<Rightarrow> instr \<Rightarrow> 'f outcome" where
  "call F s Empty = Raised TypeError s"
| "call F s (Move destination source) = move F s destination source"
| "call F s (Lea destination variable) = lea F s destination variable"
| "call F s (Push target) = push F s target"
| "call F s (Pop writable) = pop F s writable"
| "call F s (Input writable) = input_instr F s writable"
| "call F s (Output readable) = output_instr F s readable"
| "call F s (Add x y) = add F s x y"
| "call F s (Cmp x y) = cmp F s x y"
| "call F s (Sub x y) = sub F s x y"
| "call F s (Mul x y) = mul F s x y"
| "call F s (Div x y) = div_instr F s x y"
| "call F s (Fdiv x y) = fdiv F s x y"
| "call F s (Bit_not x) = bit_not F s x"
| "call F s (Bit_test x y) = bit_test F s x y"
| "call F s (Bit_and x y) = bit_and F s x y"
| "call F s (Bit_or x y) = bit_or F s x y"
| "call F s (Bit_xor x y) = bit_xor F s x y"
| "call F s (Jmp address) = jmp F s address"
| "call F s (Je address) = je F s address"
| "call F s (Jne address) = jne F s address"
| "call F s (Jb address) = jb F s address"
| "call F s (Jnb address) = jnb F s address"
| "call F s (Jbe address) = jbe F s address"
| "call F s (Ja address) = ja F s address"
| "call F s (Jna address) = jna F s address"
| "call F s (Jae address) = jae F s address"
| "call F s Ret = ret F s"

text \<open>\<^verbatim>\<open>inst()\<close> on a memory cell: a number is not callable.\<close>

fun call_value :: "'f host \<Rightarrow> 'f vm \<Rightarrow> 'f val \<Rightarrow> 'f outcome" where
  "call_value F s (VFunc i) = call F s i"
| "call_value F s _ = Raised TypeError s"

text \<open>\<^verbatim>\<open>VirtualMachine.next\<close>: fetch, advance \<^verbatim>\<open>IP\<close>, then call.\<close>

definition vm_next :: "'f host \<Rightarrow> 'f vm \<Rightarrow> 'f outcome" where
  "vm_next F s =
     attempt s (getitem (memory s) (IP s)) (\<lambda>inst.
     attempt s (py_add F (IP s) (VInt 1)) (\<lambda>ip.
     let s1 = s\<lparr>IP := ip\<rparr> in
     call_value F s1 inst))"

section \<open>Auxiliary notions for the proofs\<close>

fun final_state :: "'f outcome \<Rightarrow> 'f vm" where
  "final_state (Raised e s) = s"
| "final_state (Returned v s) = s"

text \<open>What no method ever undoes: a flag that is 1 stays 1, and the memory
  keeps its length.\<close>

definition kept :: "'f vm \<Rightarrow> 'f vm \<Rightarrow> bool" where
  "kept s s' = ((ZERO s = 1 \<longrightarrow> ZERO s' = 1) \<and> (NEG s = 1 \<longrightarrow> NEG s' = 1)
      \<and> length (memory s') = length (memory s))"

subsection \<open>Example machines\<close>

definition vm1 :: "unit vm" where
  "vm1 = VirtualMachine 1 None None"

definition vm2 :: "unit vm" where
  "vm2 = VirtualMachine 2 None None"

text \<open>\<open>vm2\<close> after \<^verbatim>\<open>push 1\<close>.\<close>

definition vm2_pushed :: "unit vm" where
  "vm2_pushed = vm2\<lparr>SP := VInt 5, memory := (memory vm2)[5 := VInt 1]\<rparr>"

definition vm3 :: "unit vm" where
  "vm3 = VirtualMachine 3 None None"

text \<open>\<open>vm3\<close> after \<^verbatim>\<open>push 2\<close>: a return address on top of the stack.\<close>

definition ret_state :: "unit vm" where
  "ret_state = vm3\<lparr>SP := VInt 8, memory := (memory vm3)[8 := VInt 2]\<rparr>"

definition sub_state :: "unit vm" where
  "sub_state = vm3\<lparr>AX := VInt 5, BX := VInt 3\<rparr>"

definition and_state :: "unit vm" where
  "and_state = vm3\<lparr>AX := VInt 6, BX := VInt 3\<rparr>"

definition eq_state :: "unit vm" where
  "eq_state = vm3\<lparr>AX := VInt 3, BX := VInt 3\<rparr>"

definition neg_state :: "unit vm" where
  "neg_state = vm3\<lparr>NEG := 1\<rparr>"

definition jmp_state :: "unit vm" where
  "jmp_state = vm3\<lparr>memory := (memory vm3)[0 := VFunc (Jmp ''2'')]\<rparr>"

definition lifo_state :: "unit vm" where
  "lifo_state = vm3\<lparr>SP := VInt 8, memory := (memory vm3)[8 := VInt 1]\<rparr>"

section \<open>Basic facts\<close>

lemmas operand_defs = read_address_def write_address_def registers_def is_memory_operand_def
  startswith_def endswith_def effective_address_def offset_of_def split_second_def
  py_int_def too_many_digits_def strip_def is_space_def is_digit_def getattr_def setattr_def
  py_add_def py_sub_def getitem_def setitem_def py_index_def store_def attempt_def
  and_then_def no_floats_def

lemma vm1_unfold:
  "vm1 = \<lparr> memory = [VFunc Empty, VInt 0, VInt 0],
     CS = 0, DS = 1, SS = 2, SP = VInt 3, BP = VInt 2, IP = VInt 0,
     AX = VInt 0, BX = VInt 0, CX = VInt 0, DX = VInt 0, ZERO = 0, NEG = 0,
     input_stream = [], output_stream = BinarySink \<rparr>"
  by (simp add: VirtualMachine_def vm1_def)

lemma vm2_unfold:
  "vm2 = \<lparr> memory = [VFunc Empty, VFunc Empty, VInt 0, VInt 0, VInt 0, VInt 0],
     CS = 0, DS = 2, SS = 4, SP = VInt 6, BP = VInt 5, IP = VInt 0,
     AX = VInt 0, BX = VInt 0, CX = VInt 0, DX = VInt 0, ZERO = 0, NEG = 0,
     input_stream = [], output_stream = BinarySink \<rparr>"
  by (simp add: VirtualMachine_def vm2_def eval_nat_numeral)

lemma vm3_unfold:
  "vm3 = \<lparr> memory = [VFunc Empty, VFunc Empty, VFunc Empty,
       VInt 0, VInt 0, VInt 0, VInt 0, VInt 0, VInt 0],
     CS = 0, DS = 3, SS = 6, SP = VInt 9, BP = VInt 8, IP = VInt 0,
     AX = VInt 0, BX = VInt 0, CX = VInt 0, DX = VInt 0, ZERO = 0, NEG = 0,
     input_stream = [], output_stream = BinarySink \<rparr>"
  by (simp add: VirtualMachine_def vm3_def eval_nat_numeral)

lemma length_memory_VirtualMachine:
  "length (memory (VirtualMachine memory_size ins outs :: 'f vm)) = 3 * nat memory_size"
  by (simp add: VirtualMachine_def Let_def)

lemma getitem_in_range:
  "0 \<le> a \<Longrightarrow> a < int (length m) \<Longrightarrow> getitem m (VInt a) = Inr (m ! nat a)"
  by (simp add: getitem_def py_index_def)

lemma setitem_in_range:
  "0 \<le> a \<Longrightarrow> a < int (length m) \<Longrightarrow> setitem m (VInt a) v = Inr (m[nat a := v])"
  by (simp add: setitem_def py_index_def)

lemma length_setitem: "setitem m a v = Inr m' \<Longrightarrow> length m' = length m"
  by (auto simp: setitem_def split: sum.splits)

lemma memory_operand_not_register: "is_memory_operand target \<Longrightarrow> target \<notin> set registers"
  by (auto simp: is_memory_operand_def registers_def startswith_def)

text \<open>No operand can name \<^verbatim>\<open>IP\<close>: assigning it changes no operand's value.\<close>

lemma getattr_IP_update: "getattr (s\<lparr>IP := v\<rparr>) r = getattr s r"
  by (simp add: getattr_def)

lemma effective_address_IP_update:
  "effective_address F (s\<lparr>IP := v\<rparr>) address = effective_address F s address"
  by (simp add: effective_address_def getattr_IP_update cong: option.case_cong)

lemma read_address_IP_update:
  "read_address F (s\<lparr>IP := v\<rparr>) target address_only = read_address F s target address_only"
  by (simp add: read_address_def effective_address_IP_update getattr_IP_update
      cong: sum.case_cong)

subsection \<open>Flags and memory size through every method\<close>

lemma kept_refl: "kept s s"
  by (simp add: kept_def)

lemma kept_attempt:
  assumes "kept s0 s" and "\<And>v. r = Inr v \<Longrightarrow> kept s0 (final_state (k v))"
  shows "kept s0 (final_state (attempt s r k))"
  using assms by (cases r) (simp_all add: attempt_def)

lemma kept_and_then:
  assumes "kept s0 (final_state r)"
    and "\<And>s1. kept s0 s1 \<Longrightarrow> kept s0 (final_state (k s1))"
  shows "kept s0 (final_state (and_then r k))"
  using assms by (cases r) (simp_all add: and_then_def)

lemma kept_write_address:
  assumes "kept s0 s" and "write_address F s t v = Inr s'"
  shows "kept s0 s'"
  using assms
  by (auto simp: write_address_def setattr_def kept_def dest: length_setitem
      split: if_splits sum.splits)

lemma kept_store: "kept s0 s \<Longrightarrow> kept s0 (final_state (store F s t v r))"
  by (auto simp: store_def dest: kept_write_address split: sum.splits)

lemma kept_set_flags: "kept s0 s \<Longrightarrow> kept s0 (final_state (set_flags F s v))"
  by (auto simp: set_flags_def attempt_def kept_def Let_def split: sum.splits)

lemma kept_updates:
  "kept s0 s \<Longrightarrow> kept s0 (s\<lparr>SP := v\<rparr>)"
  "kept s0 s \<Longrightarrow> kept s0 (s\<lparr>IP := v\<rparr>)"
  "kept s0 s \<Longrightarrow> kept s0 (s\<lparr>input_stream := ins\<rparr>)"
  "kept s0 s \<Longrightarrow> kept s0 (s\<lparr>output_stream := out\<rparr>)"
  "kept s0 s \<Longrightarrow> setitem (memory s) a v = Inr m \<Longrightarrow> kept s0 (s\<lparr>memory := m\<rparr>)"
  by (auto simp: kept_def dest: length_setitem)

lemmas kept_intros = kept_attempt kept_and_then kept_store kept_set_flags kept_updates kept_refl

lemma kept_jump_if: "kept s0 s \<Longrightarrow> kept s0 (final_state (jump_if F s address c))"
  by (auto simp: jump_if_def intro!: kept_intros)

lemma kept_call: "kept s0 s \<Longrightarrow> kept s0 (final_state (call F s i))"
proof (cases i)
  case (Push t)
  then show "kept s0 s \<Longrightarrow> ?thesis"
    by (auto simp: push_def Let_def intro!: kept_intros)
next
  case (Pop w)
  then show "kept s0 s \<Longrightarrow> ?thesis"
    by (auto simp: pop_def Let_def intro!: kept_intros split: option.splits)
next
  case (Input w)
  then show "kept s0 s \<Longrightarrow> ?thesis"
    by (auto simp: input_instr_def Let_def intro!: kept_intros split: list.splits)
next
  case (Output w)
  then show "kept s0 s \<Longrightarrow> ?thesis"
    by (auto simp: output_instr_def Let_def intro!: kept_intros)
qed (auto simp: move_def lea_def add_def cmp_def sub_def mul_def div_instr_def fdiv_def
      bit_not_def bit_test_def bit_and_def bit_or_def bit_xor_def jmp_def je_def jne_def
      jb_def jnb_def jbe_def ja_def jna_def jae_def ret_def kept_jump_if Let_def
      intro!: kept_intros)

lemma kept_vm_next: "kept s (final_state (vm_next F s))"
proof -
  have "kept s (final_state (call_value F s1 inst))" if "kept s s1" for s1 inst
    using that by (cases inst) (simp_all add: kept_call)
  then show ?thesis
    by (auto simp: vm_next_def Let_def intro!: kept_intros)
qed

lemma kept_add_instruction: "kept s (final_state (add_instruction F s inst))"
  by (auto simp: add_instruction_def Let_def kept_def attempt_def py_add_def
      dest: length_setitem split: sum.splits)

text \<open>Flags are sticky through every instruction, whether it returns or raises,
  and through a whole step of the engine.\<close>

lemma flags_sticky:
  "(ZERO s = 1 \<longrightarrow> ZERO (final_state (call F s i)) = 1)
   \<and> (NEG s = 1 \<longrightarrow> NEG (final_state (call F s i)) = 1)"
  using kept_call [OF kept_refl, of s F i] by (simp add: kept_def)

lemma flags_sticky_step:
  "(ZERO s = 1 \<longrightarrow> ZERO (final_state (vm_next F s)) = 1)
   \<and> (NEG s = 1 \<longrightarrow> NEG (final_state (vm_next F s)) = 1)"
  using kept_vm_next [of s F] by (simp add: kept_def)

lemma memory_never_grows: "length (memory (final_state (call F s i))) = length (memory s)"
  using kept_call [OF kept_refl, of s F i] by (simp add: kept_def)

text \<open>The instructions that do run \<^verbatim>\<open>set_flags\<close> set \<^verbatim>\<open>ZERO\<close> on a zero result
  and \<^verbatim>\<open>NEG\<close> on a negative one.\<close>

lemma set_flags_result:
  "py_lt_zero F v = Inr negative \<Longrightarrow>
   set_flags F s v = Returned None
     (s\<lparr>ZERO := (if py_eq_zero F v then 1 else ZERO s),
        NEG := (if negative then 1 else NEG s)\<rparr>)"
  by (simp add: set_flags_def attempt_def)

text \<open>\<^verbatim>\<open>ret\<close>, \<^verbatim>\<open>sub\<close> and \<^verbatim>\<open>bit_and\<close> in general.\<close>

lemma ret_returns_unchanged: "call F s Ret = Returned None s"
  by (simp add: ret_def)

lemma sub_stores_closure:
  "call F s (Sub x y) = store F s x (VFunc (Cmp x y)) (Some (VFunc (Cmp x y)))"
  by (simp add: sub_def Let_def)

lemma bit_and_stores_closure:
  "call F s (Bit_and x y) = store F s x (VFunc (Bit_test x y)) None"
  by (simp add: bit_and_def Let_def)

section \<open>The claims\<close>

subsection \<open>The stack\<close>

text \<open>
  C1. Executing \<^verbatim>\<open>ret\<close> should pop the return address (read \<^verbatim>\<open>Memory[SP]\<close>,
  increment \<^verbatim>\<open>SP\<close>) and assign it to \<^verbatim>\<open>IP\<close>. The code does neither. On
  \<open>ret_state\<close>, the machine of size 3 after \<^verbatim>\<open>push 2\<close>, the top of the stack
  holds 2, and \<^verbatim>\<open>pop\<close> followed by \<^verbatim>\<open>jmp\<close> would give \<^verbatim>\<open>SP = 9\<close> and
  \<^verbatim>\<open>IP = 2\<close>; \<^verbatim>\<open>ret\<close> returns with the state as it was, \<^verbatim>\<open>SP = 8\<close> and
  \<^verbatim>\<open>IP = 0\<close>.
\<close>

theorem ret_failing_input:
  "call no_floats vm3 (Push ''2'') = Returned None ret_state
   \<and> getitem (memory ret_state) (SP ret_state) = Inr (VInt 2)
   \<and> call no_floats ret_state (Pop None) = Returned (Some (VInt 2)) (ret_state\<lparr>SP := VInt 9\<rparr>)
   \<and> call no_floats (ret_state\<lparr>SP := VInt 9\<rparr>) (Jmp ''2'')
       = Returned None (ret_state\<lparr>SP := VInt 9, IP := VInt 2\<rparr>)
   \<and> call no_floats ret_state Ret = Returned None ret_state
   \<and> SP ret_state = VInt 8 \<and> IP ret_state = VInt 0"
  by (simp add: ret_state_def vm3_unfold push_def pop_def jmp_def jump_if_def ret_def
      operand_defs)

text \<open>
  C8 (as the code has it). The stack is last-in first-out as long as no push
  moves \<^verbatim>\<open>SP\<close> onto the stack base. Let \<^verbatim>\<open>SP = p\<close> with both cells \<open>p - 1\<close>
  and \<open>p - 2\<close> inside the memory and strictly above \<^verbatim>\<open>SS\<close>, and let the
  operands \<open>t1\<close> and \<open>t2\<close> resolve to \<open>v1\<close> and \<open>v2\<close> when they are pushed.
  Then \<^verbatim>\<open>push t1; push t2\<close> both return, the two following \<^verbatim>\<open>pop\<close>s return \<open>v2\<close>
  and then \<open>v1\<close>, and \<^verbatim>\<open>SP\<close> is \<open>p\<close> again.
\<close>

theorem push_push_pop_pop:
  assumes "SP s = VInt p" and "SS s < p - 2" and "0 \<le> SS s" and "p \<le> int (length (memory s))"
    and "read_address F (s\<lparr>SP := VInt (p - 1)\<rparr>) t1 False = Inr v1"
    and "s1 = s\<lparr>SP := VInt (p - 1), memory := (memory s)[nat (p - 1) := v1]\<rparr>"
    and "read_address F (s1\<lparr>SP := VInt (p - 2)\<rparr>) t2 False = Inr v2"
  shows "\<exists>s2 s3 s4. call F s (Push t1) = Returned None s1
           \<and> call F s1 (Push t2) = Returned None s2
           \<and> call F s2 (Pop None) = Returned (Some v2) s3
           \<and> call F s3 (Pop None) = Returned (Some v1) s4
           \<and> SP s4 = SP s"
proof -
  let ?m1 = "(memory s)[nat (p - 1) := v1]"
  let ?m2 = "?m1[nat (p - 2) := v2]"
  let ?s2 = "s1\<lparr>SP := VInt (p - 2), memory := ?m2\<rparr>"
  let ?s3 = "?s2\<lparr>SP := VInt (p - 1)\<rparr>"
  let ?s4 = "?s3\<lparr>SP := VInt p\<rparr>"
  have len: "0 \<le> p - 2" "p - 1 < int (length (memory s))" "p - 2 < int (length (memory s))"
    using assms(2-4) by simp_all
  have first: "call F s (Push t1) = Returned None s1"
    using assms(1,2,5,6) len
    by (simp add: push_def attempt_def py_sub_def Let_def setitem_in_range)
  have s1: "SP s1 = VInt (p - 1)" "SS s1 = SS s" "memory s1 = ?m1"
    by (simp_all add: assms(6))
  have second: "call F s1 (Push t2) = Returned None ?s2"
    using s1 assms(2,7) len
    by (simp add: push_def attempt_def py_sub_def Let_def setitem_in_range)
  have third: "call F ?s2 (Pop None) = Returned (Some v2) ?s3"
    using len by (simp add: pop_def attempt_def py_add_def Let_def getitem_in_range s1)
  have neq: "nat (p - 1) \<noteq> nat (p - 2)"
    using len by simp
  have fourth: "call F ?s3 (Pop None) = Returned (Some v1) ?s4"
    using len neq by (simp add: pop_def attempt_def py_add_def Let_def getitem_in_range s1)
  have "SP ?s4 = SP s"
    by (simp add: assms(1))
  with first second third fourth show ?thesis
    by blast
qed

theorem push_push_pop_pop_witness:
  "SP vm3 = VInt 9 \<and> SS vm3 < 9 - 2 \<and> 9 \<le> int (length (memory vm3))
   \<and> (\<exists>s2 s3 s4. call no_floats vm3 (Push ''1'') = Returned None lifo_state
         \<and> call no_floats lifo_state (Push ''2'') = Returned None s2
         \<and> call no_floats s2 (Pop None) = Returned (Some (VInt 2)) s3
         \<and> call no_floats s3 (Pop None) = Returned (Some (VInt 1)) s4
         \<and> SP s4 = SP vm3)"
proof -
  have h: "SP vm3 = VInt 9" "SS vm3 < 9 - 2" "0 \<le> SS vm3" "9 \<le> int (length (memory vm3))"
    by (simp_all add: vm3_unfold)
  have r1: "read_address no_floats (vm3\<lparr>SP := VInt (9 - 1)\<rparr>) ''1'' False = Inr (VInt 1)"
    by (simp add: operand_defs)
  have s1: "lifo_state = vm3\<lparr>SP := VInt (9 - 1), memory := (memory vm3)[nat (9 - 1) := VInt 1]\<rparr>"
    by (simp add: lifo_state_def)
  have r2: "read_address no_floats (lifo_state\<lparr>SP := VInt (9 - 2)\<rparr>) ''2'' False = Inr (VInt 2)"
    by (simp add: operand_defs)
  show ?thesis
    using h push_push_pop_pop [OF h r1 s1 r2] by simp
qed

text \<open>
  C8 as stated fails when the second push reaches the first cell of the stack
  segment. The fresh machine of size 2 has the stack segment \<open>[4, 6)\<close> and
  \<^verbatim>\<open>SP = 6\<close>, so the cells 5 and 4 of two pushes are both inside the segment;
  \<^verbatim>\<open>push 1\<close> returns, and \<^verbatim>\<open>push 2\<close> raises \<^verbatim>\<open>MemoryError\<close> with \<^verbatim>\<open>SP = 4\<close>, so
  no value can be popped back.
\<close>

theorem push_onto_stack_base_counterexample:
  "SS vm2 = 4 \<and> SP vm2 = VInt 6 \<and> length (memory vm2) = 6
   \<and> call no_floats vm2 (Push ''1'') = Returned None vm2_pushed
   \<and> call no_floats vm2_pushed (Push ''2'') = Raised MemoryError (vm2_pushed\<lparr>SP := VInt 4\<rparr>)"
  by (simp add: vm2_pushed_def vm2_unfold push_def operand_defs)

text \<open>
  C5 (as the code has it). When \<^verbatim>\<open>SP - 1\<close> equals \<^verbatim>\<open>SS\<close>, \<^verbatim>\<open>push\<close> raises
  \<^verbatim>\<open>MemoryError\<close> before it resolves its operand. \<^verbatim>\<open>SP\<close> has been decremented
  by then and equals \<^verbatim>\<open>SS\<close> in the state left behind; every other register,
  both flags and the whole memory are as before.
\<close>

theorem push_at_capacity:
  assumes "SP s = VInt p" and "p - 1 = SS s"
  shows "call F s (Push target) = Raised MemoryError (s\<lparr>SP := VInt (SS s)\<rparr>)"
  using assms by (simp add: push_def attempt_def py_sub_def Let_def)

theorem push_at_capacity_witness:
  "SP vm1 = VInt 3 \<and> 3 - 1 = SS vm1
   \<and> call no_floats vm1 (Push ''[AX]'') = Raised MemoryError (vm1\<lparr>SP := VInt 2\<rparr>)"
proof -
  have h: "SP vm1 = VInt 3" "3 - 1 = SS vm1"
    by (simp_all add: vm1_unfold)
  have "SS vm1 = 2"
    by (simp add: vm1_unfold)
  with h push_at_capacity [OF h, of no_floats "''[AX]''"] show ?thesis
    by simp
qed

text \<open>
  C5 as stated fails: on the fresh machine of size 1 the stack is at its
  capacity (\<^verbatim>\<open>SP = 3\<close>, \<^verbatim>\<open>SS = 2\<close>); \<^verbatim>\<open>push\<close> raises, and the state it leaves has
  \<^verbatim>\<open>SP = 2\<close>, so it is not the state before the push.
\<close>

theorem push_at_capacity_counterexample:
  "SP vm1 = VInt 3 \<and> SS vm1 = 2
   \<and> call no_floats vm1 (Push ''7'') = Raised MemoryError (vm1\<lparr>SP := VInt 2\<rparr>)
   \<and> call no_floats vm1 (Push ''7'') \<noteq> Raised MemoryError vm1"
  by (simp add: push_def attempt_def py_sub_def Let_def vm1_unfold)

text \<open>
  C10. \<^verbatim>\<open>pop\<close> has no underflow check. On a freshly constructed machine, of any
  size and with any streams, \<^verbatim>\<open>SP\<close> is the length of the memory; \<^verbatim>\<open>pop\<close> raises
  \<^verbatim>\<open>IndexError\<close> on reading \<^verbatim>\<open>Memory[SP]\<close> and leaves the state, \<^verbatim>\<open>SP\<close> included,
  as it was.
\<close>

theorem pop_on_fresh_vm:
  "SP (VirtualMachine memory_size ins outs :: 'f vm)
     = VInt (int (length (memory (VirtualMachine memory_size ins outs :: 'f vm))))
   \<and> call F (VirtualMachine memory_size ins outs) (Pop writable)
     = Raised IndexError (VirtualMachine memory_size ins outs)"
  by (simp add: pop_def attempt_def getitem_def py_index_def VirtualMachine_def Let_def)

subsection \<open>Subtraction and bitwise and\<close>

text \<open>
  C2. \<^verbatim>\<open>sub x, y\<close> should store \<^verbatim>\<open>read(x) - read(y)\<close> into \<open>x\<close> and set the flags
  from it, as \<^verbatim>\<open>cmp\<close> followed by a store. With \<^verbatim>\<open>AX = 5\<close> and \<^verbatim>\<open>BX = 3\<close>,
  \<^verbatim>\<open>cmp AX, BX\<close> returns 2, but \<^verbatim>\<open>sub AX, BX\<close> writes the closure of that
  comparison into \<^verbatim>\<open>AX\<close> and returns it.
\<close>

theorem sub_failing_input:
  "call no_floats sub_state (Cmp ''AX'' ''BX'') = Returned (Some (VInt 2)) sub_state
   \<and> call no_floats sub_state (Sub ''AX'' ''BX'')
       = Returned (Some (VFunc (Cmp ''AX'' ''BX'')))
           (sub_state\<lparr>AX := VFunc (Cmp ''AX'' ''BX'')\<rparr>)"
  by (simp add: sub_state_def vm3_unfold sub_def cmp_def set_flags_def Let_def operand_defs)

text \<open>
  C3. \<^verbatim>\<open>bit_and x, y\<close> should store \<^verbatim>\<open>read(x) & read(y)\<close> into \<open>x\<close> and set the
  flags from it, as \<^verbatim>\<open>bit_test\<close> followed by a store. With \<^verbatim>\<open>AX = 6\<close> and
  \<^verbatim>\<open>BX = 3\<close>, \<^verbatim>\<open>bit_test AX, BX\<close> returns 2, but \<^verbatim>\<open>bit_and AX, BX\<close> writes the
  closure of that test into \<^verbatim>\<open>AX\<close>.
\<close>

theorem bit_and_failing_input:
  "call no_floats and_state (Bit_test ''AX'' ''BX'') = Returned (Some (VInt 2)) and_state
   \<and> call no_floats and_state (Bit_and ''AX'' ''BX'')
       = Returned None (and_state\<lparr>AX := VFunc (Bit_test ''AX'' ''BX'')\<rparr>)"
  by (simp add: and_state_def vm3_unfold bit_and_def bit_test_def set_flags_def Let_def
      operand_defs)

text \<open>
  C7. Every flag-setting instruction should set \<^verbatim>\<open>ZERO\<close> on a zero result and
  \<^verbatim>\<open>NEG\<close> on a negative one, and none resets a flag (the second half is
  \<open>flags_sticky\<close> above). \<^verbatim>\<open>sub\<close> and \<^verbatim>\<open>bit_and\<close> set no flag at all: with
  \<^verbatim>\<open>AX = BX = 3\<close> and \<^verbatim>\<open>DX = 0\<close>, the difference \<^verbatim>\<open>AX - BX\<close> and the
  conjunction \<^verbatim>\<open>AX & DX\<close> are zero and \<^verbatim>\<open>BX - 4\<close> is negative; \<^verbatim>\<open>cmp\<close> and
  \<^verbatim>\<open>bit_test\<close> set the flags, \<^verbatim>\<open>sub\<close> and \<^verbatim>\<open>bit_and\<close> leave them at 0.
\<close>

theorem sub_bit_and_set_no_flag:
  "ZERO eq_state = 0 \<and> NEG eq_state = 0
   \<and> ZERO (final_state (call no_floats eq_state (Cmp ''AX'' ''BX''))) = 1
   \<and> ZERO (final_state (call no_floats eq_state (Sub ''AX'' ''BX''))) = 0
   \<and> NEG (final_state (call no_floats eq_state (Cmp ''BX'' ''4''))) = 1
   \<and> NEG (final_state (call no_floats eq_state (Sub ''BX'' ''4''))) = 0
   \<and> ZERO (final_state (call no_floats eq_state (Bit_test ''AX'' ''DX''))) = 1
   \<and> ZERO (final_state (call no_floats eq_state (Bit_and ''AX'' ''DX''))) = 0"
  by (simp add: eq_state_def vm3_unfold sub_def cmp_def bit_and_def bit_test_def
      set_flags_def Let_def operand_defs)

subsection \<open>Jumps and the engine\<close>

text \<open>
  C4 (as the code has it). \<^verbatim>\<open>jna\<close> and \<^verbatim>\<open>jae\<close> have different conditions. When
  the operand resolves to \<open>t\<close>, \<^verbatim>\<open>jna\<close> assigns \<open>t\<close> to \<^verbatim>\<open>IP\<close> if and only if
  \<^verbatim>\<open>ZERO\<close> or \<^verbatim>\<open>NEG\<close> holds, and \<^verbatim>\<open>jae\<close> assigns it if and only if \<^verbatim>\<open>ZERO\<close> holds
  or \<^verbatim>\<open>NEG\<close> does not; otherwise the state is unchanged.
\<close>

theorem jna_jae_conditions:
  assumes "read_address F s address False = Inr t"
  shows "call F s (Jna address)
           = Returned None (if ZERO s \<noteq> 0 \<or> NEG s \<noteq> 0 then s\<lparr>IP := t\<rparr> else s)
       \<and> call F s (Jae address)
           = Returned None (if ZERO s \<noteq> 0 \<or> NEG s = 0 then s\<lparr>IP := t\<rparr> else s)"
  using assms by (simp add: jna_def jae_def jump_if_def attempt_def truthy_def)

theorem jna_jae_conditions_witness:
  "read_address no_floats neg_state ''2'' False = Inr (VInt 2)
   \<and> call no_floats neg_state (Jna ''2'') = Returned None (neg_state\<lparr>IP := VInt 2\<rparr>)
   \<and> call no_floats neg_state (Jae ''2'') = Returned None neg_state"
proof -
  have h: "read_address no_floats neg_state ''2'' False = Inr (VInt 2)"
    by (simp add: operand_defs)
  have "ZERO neg_state = 0" "NEG neg_state = 1"
    by (simp_all add: neg_state_def vm3_unfold)
  with h jna_jae_conditions [OF h] show ?thesis
    by simp
qed

text \<open>
  C4 as stated fails for \<^verbatim>\<open>jae\<close>: on the fresh machine neither \<^verbatim>\<open>ZERO\<close> nor
  \<^verbatim>\<open>NEG\<close> holds, and \<^verbatim>\<open>jae 2\<close> assigns 2 to \<^verbatim>\<open>IP\<close>, which was 0.
\<close>

theorem jae_counterexample:
  "ZERO vm3 = 0 \<and> NEG vm3 = 0 \<and> IP vm3 = VInt 0
   \<and> call no_floats vm3 (Jae ''2'') = Returned None (vm3\<lparr>IP := VInt 2\<rparr>)
   \<and> call no_floats vm3 (Jna ''2'') = Returned None vm3"
  by (simp add: jae_def jna_def jump_if_def truthy_def operand_defs vm3_unfold)

text \<open>
  C9. One step of the engine, from \<^verbatim>\<open>IP = a\<close>: it fetches \<^verbatim>\<open>Memory[a]\<close> (and
  raises with the state unchanged when that fails), then assigns \<open>a + 1\<close> to
  \<^verbatim>\<open>IP\<close>, then calls what it fetched and returns its result. So when the cell
  holds \<^verbatim>\<open>jmp address\<close> and the operand resolves to \<open>t\<close>, the step ends with
  \<^verbatim>\<open>IP = t\<close>, whatever \<open>a + 1\<close> is.
\<close>

theorem next_fetch_advance_execute:
  assumes "IP s = VInt a"
  shows "vm_next F s =
           (case getitem (memory s) (VInt a) of
              Inl e \<Rightarrow> Raised e s
            | Inr inst \<Rightarrow> call_value F (s\<lparr>IP := VInt (a + 1)\<rparr>) inst)
       \<and> (\<forall>address t.
            getitem (memory s) (VInt a) = Inr (VFunc (Jmp address))
            \<and> read_address F s address False = Inr t
            \<longrightarrow> vm_next F s = Returned None (s\<lparr>IP := t\<rparr>))"
  using assms
  by (auto simp: vm_next_def attempt_def py_add_def jmp_def jump_if_def
      read_address_IP_update split: sum.splits)

theorem next_fetch_advance_execute_witness:
  "IP jmp_state = VInt 0
   \<and> getitem (memory jmp_state) (VInt 0) = Inr (VFunc (Jmp ''2''))
   \<and> read_address no_floats jmp_state ''2'' False = Inr (VInt 2)
   \<and> vm_next no_floats jmp_state = call_value no_floats (jmp_state\<lparr>IP := VInt 1\<rparr>) (VFunc (Jmp ''2''))
   \<and> vm_next no_floats jmp_state = Returned None (jmp_state\<lparr>IP := VInt 2\<rparr>)"
proof -
  have h: "IP jmp_state = VInt 0"
    by (simp add: jmp_state_def vm3_unfold)
  have g: "getitem (memory jmp_state) (VInt 0) = Inr (VFunc (Jmp ''2''))"
    by (simp add: jmp_state_def vm3_unfold getitem_def py_index_def)
  have r: "read_address no_floats jmp_state ''2'' False = Inr (VInt 2)"
    by (simp add: operand_defs)
  note step = next_fetch_advance_execute [OF h, of no_floats]
  have a: "vm_next no_floats jmp_state
      = call_value no_floats (jmp_state\<lparr>IP := VInt 1\<rparr>) (VFunc (Jmp ''2''))"
    using step [THEN conjunct1] g by simp
  have b: "vm_next no_floats jmp_state = Returned None (jmp_state\<lparr>IP := VInt 2\<rparr>)"
    using step [THEN conjunct2] g r by blast
  from h g r a b show ?thesis
    by blast
qed

subsection \<open>Memory bounds\<close>

text \<open>
  C6 (as the code has it). Let a bracketed operand have the integer effective
  address \<open>a\<close>. When \<open>a\<close> is at least the length of the memory, or below its
  negation, reading and writing through the operand raise \<^verbatim>\<open>IndexError\<close> and the
  state is unchanged. No instruction, returning or raising, changes the length
  of the memory, which is \<open>3 * memory_size\<close> from construction on.
\<close>

theorem out_of_range_address_raises:
  assumes "is_memory_operand target"
    and "effective_address F s (butlast (tl target)) = Inr (VInt a)"
    and "int (length (memory s)) \<le> a \<or> a < - int (length (memory s))"
  shows "read_address F s target False = Inl IndexError
       \<and> write_address F s target v = Inl IndexError
       \<and> store F s target v r = Raised IndexError s
       \<and> length (memory (final_state (call F s i))) = length (memory s)"
proof -
  have idx: "py_index (memory s) (VInt a) = Inl IndexError"
    using assms(3) by (auto simp: py_index_def Let_def)
  have rd: "read_address F s target False = Inl IndexError"
    using assms(1,2) idx memory_operand_not_register [OF assms(1)]
    by (simp add: read_address_def getitem_def)
  have wr: "write_address F s target v = Inl IndexError"
    using assms(1,2) idx memory_operand_not_register [OF assms(1)]
    by (simp add: write_address_def setitem_def)
  from rd wr show ?thesis
    by (simp add: store_def memory_never_grows)
qed

theorem out_of_range_address_raises_witness:
  "is_memory_operand ''[BX+3]''
   \<and> effective_address no_floats vm1 ''BX+3'' = Inr (VInt 3)
   \<and> int (length (memory vm1)) \<le> 3
   \<and> read_address no_floats vm1 ''[BX+3]'' False = Inl IndexError
   \<and> write_address no_floats vm1 ''[BX+3]'' (VInt 5) = Inl IndexError"
proof -
  have h1: "is_memory_operand ''[BX+3]''"
    by (simp add: is_memory_operand_def startswith_def endswith_def)
  have h2: "effective_address no_floats vm1 (butlast (tl ''[BX+3]'')) = Inr (VInt 3)"
    by (simp add: operand_defs vm1_unfold)
  have h3: "int (length (memory vm1)) \<le> 3 \<or> 3 < - int (length (memory vm1))"
    by (simp add: vm1_unfold)
  have "int (length (memory vm1)) \<le> 3"
    by (simp add: vm1_unfold)
  with h1 h2 out_of_range_address_raises [OF h1 h2 h3, of "VInt 5" None Ret] show ?thesis
    by simp
qed

text \<open>
  C6 as stated fails for negative addresses: on the fresh machine of size 1
  the operand \<^verbatim>\<open>[-1]\<close> has effective address \<open>-1\<close>, outside \<open>[0, 3)\<close>; reading
  it returns the last cell and writing it changes that cell.
\<close>

theorem negative_address_counterexample:
  "read_address no_floats vm1 ''[-1]'' True = Inr (VInt (- 1))
   \<and> read_address no_floats vm1 ''[-1]'' False = Inr (VInt 0)
   \<and> write_address no_floats vm1 ''[-1]'' (VInt 5)
       = Inr (vm1\<lparr>memory := [VFunc Empty, VInt 0, VInt 5]\<rparr>)"
  by (simp add: operand_defs vm1_unfold)

end
